theory Spec2Isabelle
  imports
    Main
    "HOL-Library.Char_ord"
    "HOL-Library.List_Lexorder"
    "HOL-Library.Sublist"
begin

section \<open>Python values used by util/generate-ami-list.py\<close>

text \<open>
  Strings are \<^typ>\<open>string\<close>; their order is the lexicographic order on characters
  (\<open>Char_ord\<close>, \<open>List_Lexorder\<close>), which is how Python compares \<open>str\<close> values.

  A Python \<open>dict\<close> or \<open>OrderedDict\<close> is an association list in insertion order.
  \<open>d[k] = v\<close> overwrites the value of an existing key where it stands and appends a new
  key at the end.
\<close>

fun setitem :: "'k \<Rightarrow> 'v \<Rightarrow> ('k \<times> 'v) list \<Rightarrow> ('k \<times> 'v) list" where
  "setitem k v [] = [(k, v)]"
| "setitem k v ((k', v') # d) =
     (if k' = k then (k, v) # d else (k', v') # setitem k v d)"

text \<open>\<open>d.update(other)\<close>: one assignment per item of \<open>other\<close>, in its order.\<close>

definition dict_update :: "('k \<times> 'v) list \<Rightarrow> ('k \<times> 'v) list \<Rightarrow> ('k \<times> 'v) list" where
  "dict_update d other = fold (\<lambda>(k, v) acc. setitem k v acc) other d"

text \<open>
  \<open>OrderedDict(sorted(d.items()))\<close>: the items sorted by key. The keys of a dict are
  pairwise different, so the tuple comparison of \<open>sorted\<close> never looks at a value.
\<close>

definition sorted_items :: "(string \<times> 'v) list \<Rightarrow> (string \<times> 'v) list" where
  "sorted_items d = sort_key fst d"

text \<open>\<open>sub in s\<close> on two strings: \<open>sub\<close> occurs in \<open>s\<close> as a contiguous block.\<close>

fun str_contains :: "string \<Rightarrow> string \<Rightarrow> bool" where
  "str_contains sub [] = (sub = [])"
| "str_contains sub (c # cs) = (prefix sub (c # cs) \<or> str_contains sub cs)"

definition nl :: string where
  "nl = [CHR 0x0A]"

text \<open>
  The values a parsed JSON document is made of. Numbers are never inspected by the
  program and are kept as integers.
\<close>

datatype json =
    JNull
  | JBool bool
  | JNum int
  | JStr string
  | JArr "json list"
  | JObj "(string \<times> json) list"

text \<open>
  The exceptions that can reach the program: \<open>ClientError\<close> is botocore's error
  response of the service (with its error code), \<open>BotoCoreError\<close> stands for every
  other exception of the provider client (no endpoint, no credentials, a timeout).
\<close>

datatype exn =
    ClientError string
  | BotoCoreError string
  | IOError
  | ValueError
  | AttributeError
  | TypeError
  | KeyError

text \<open>\<open>x.get(k)\<close>: only a dict has the method; a missing key gives \<open>None\<close>.\<close>

fun py_get :: "json \<Rightarrow> string \<Rightarrow> exn + json" where
  "py_get (JObj items) k = Inr (case map_of items k of None \<Rightarrow> JNull | Some v \<Rightarrow> v)"
| "py_get _ k = Inl AttributeError"

text \<open>\<open>k in x\<close> for a string \<open>k\<close>: key membership in a dict, substring test in a
  string, element test in a list, a \<open>TypeError\<close> on anything else.\<close>

fun py_in :: "string \<Rightarrow> json \<Rightarrow> exn + bool" where
  "py_in k (JObj items) = Inr (k \<in> set (map fst items))"
| "py_in k (JStr s) = Inr (str_contains k s)"
| "py_in k (JArr xs) = Inr (JStr k \<in> set xs)"
| "py_in k _ = Inl TypeError"

text \<open>\<open>x[k]\<close> for a string \<open>k\<close>: defined on a dict only.\<close>

fun py_getitem :: "json \<Rightarrow> string \<Rightarrow> exn + json" where
  "py_getitem (JObj items) k = (case map_of items k of None \<Rightarrow> Inl KeyError | Some v \<Rightarrow> Inr v)"
| "py_getitem _ k = Inl TypeError"

section \<open>The configured distros\<close>

definition distros :: "(string \<times> string) list" where
  "distros =
     [(''alinux'', ''amzn''),
      (''centos6'', ''centos6''),
      (''centos7'', ''centos7''),
      (''ubuntu1404'', ''ubuntu-1404''),
      (''ubuntu1604'', ''ubuntu-1604'')]"

section \<open>get_ami_list\<close>

text \<open>
  An image of a \<open>describe_images\<close> response, with the two fields the program reads.
  The provider is a parameter: \<open>describe_images region_name owner name_filter\<close> is the
  outcome of creating the client of the region and of its query, the list of the
  returned images or the exception raised.
\<close>

record image =
  Name :: string
  ImageId :: string

type_synonym ec2_images = "string \<Rightarrow> string \<Rightarrow> string \<Rightarrow> exn + image list"

definition name_filter :: "string \<Rightarrow> string \<Rightarrow> string" where
  "name_filter version date = ''aws-parallelcluster-'' @ version @ ''*'' @ date"

text \<open>The inner loop over \<open>distros.items()\<close> for one image.\<close>

definition scan_distros :: "image \<Rightarrow> (string \<times> string) list \<Rightarrow> (string \<times> string) list" where
  "scan_distros img amis =
     fold (\<lambda>(key, value) amis.
             if str_contains value (Name img) then setitem key (ImageId img) amis else amis)
          distros amis"

text \<open>The loop over the images of a response, from \<open>amis = {}\<close>.\<close>

definition scan_images :: "image list \<Rightarrow> (string \<times> string) list" where
  "scan_images images = fold scan_distros images []"

definition warning :: "string \<Rightarrow> string" where
  "warning region_name =
     ''Warning: there are no AMIs in the selected region ('' @ region_name @ '')''"

text \<open>
  The loop over the regions. The state is the lines printed so far and \<open>amis_json\<close>.
  A \<open>ClientError\<close> is caught and the region passed over; any other exception leaves
  the function.
\<close>

fun get_ami_list_loop ::
  "ec2_images \<Rightarrow> string \<Rightarrow> string \<Rightarrow> string list \<Rightarrow> string list \<Rightarrow>
   (string \<times> (string \<times> string) list) list \<Rightarrow>
   string list \<times> (exn + (string \<times> (string \<times> string) list) list)" where
  "get_ami_list_loop ec2 owner flt [] out amis_json = (out, Inr amis_json)"
| "get_ami_list_loop ec2 owner flt (region_name # regions) out amis_json =
     (case ec2 region_name owner flt of
        Inl (ClientError code) \<Rightarrow> get_ami_list_loop ec2 owner flt regions out amis_json
      | Inl e \<Rightarrow> (out, Inl e)
      | Inr images \<Rightarrow>
          (let amis = scan_images images in
           if length amis = 0
           then get_ami_list_loop ec2 owner flt regions (out @ [warning region_name]) amis_json
           else get_ami_list_loop ec2 owner flt regions out
                  (setitem region_name (sorted_items amis) amis_json)))"

definition get_ami_list ::
  "ec2_images \<Rightarrow> string list \<Rightarrow> string \<Rightarrow> string \<Rightarrow> string \<Rightarrow>
   string list \<times> (exn + (string \<times> (string \<times> string) list) list)" where
  "get_ami_list ec2 regions date version owner =
     get_ami_list_loop ec2 owner (name_filter version date) regions [] []"

section \<open>convert_json_to_txt\<close>

text \<open>The inner loop over \<open>amis_json.items()\<close> for one distro key.\<close>

fun region_lines :: "string \<Rightarrow> (string \<times> json) list \<Rightarrow> string \<Rightarrow> exn + string" where
  "region_lines key [] amis_txt = Inr amis_txt"
| "region_lines key ((region, amis) # rest) amis_txt =
     (case py_in key amis of
        Inl e \<Rightarrow> Inl e
      | Inr False \<Rightarrow> region_lines key rest amis_txt
      | Inr True \<Rightarrow>
          (case py_getitem amis key of
             Inl e \<Rightarrow> Inl e
           | Inr (JStr ami) \<Rightarrow> region_lines key rest (amis_txt @ region @ '': '' @ ami @ nl)
           | Inr _ \<Rightarrow> Inl TypeError))"

text \<open>The outer loop over \<open>distros.items()\<close>.\<close>

fun distro_sections ::
  "(string \<times> string) list \<Rightarrow> (string \<times> json) list \<Rightarrow> string \<Rightarrow> exn + string" where
  "distro_sections [] amis_json amis_txt = Inr amis_txt"
| "distro_sections ((key, value) # rest) amis_json amis_txt =
     (case region_lines key amis_json (amis_txt @ ''# '' @ key @ nl) of
        Inl e \<Rightarrow> Inl e
      | Inr amis_txt' \<Rightarrow> distro_sections rest amis_json amis_txt')"

definition convert_json_to_txt :: "(string \<times> json) list \<Rightarrow> exn + string" where
  "convert_json_to_txt amis_json = distro_sections distros amis_json ''''"

section \<open>get_all_aws_regions\<close>

definition get_all_aws_regions :: "(string \<Rightarrow> exn + string list) \<Rightarrow> string \<Rightarrow> exn + string list" where
  "get_all_aws_regions describe_regions region =
     (case describe_regions region of Inl e \<Rightarrow> Inl e | Inr names \<Rightarrow> Inr (sort names))"

section \<open>update_cfn_template\<close>

text \<open>
  The files are a map from paths to contents. The JSON library is a parameter:
  \<open>json_load\<close> parses a text (with \<open>object_pairs_hook=OrderedDict\<close>) or raises,
  \<open>json_dump\<close> writes a value with the indentation and separators of the call.
\<close>

type_synonym files = "string \<rightharpoonup> string"

definition update_cfn_template ::
  "(string \<Rightarrow> exn + json) \<Rightarrow> (json \<Rightarrow> string) \<Rightarrow> files \<Rightarrow> string \<Rightarrow> (string \<times> json) list \<Rightarrow>
   files \<times> (exn + (string \<times> json) list)" where
  "update_cfn_template json_load json_dump fs cfn_template_file amis_to_update =
     (case fs cfn_template_file of
        None \<Rightarrow> (fs, Inl IOError)
      | Some text \<Rightarrow>
     (case json_load text of
        Inl e \<Rightarrow> (fs, Inl e)
      | Inr cfn_data \<Rightarrow>
     (case py_get cfn_data ''Mappings'' of
        Inl e \<Rightarrow> (fs, Inl e)
      | Inr mappings \<Rightarrow>
     (case py_get mappings ''AWSRegionOS2AMI'' of
        Inl e \<Rightarrow> (fs, Inl e)
      | Inr (JObj current_amis) \<Rightarrow>
          (let merged = dict_update current_amis amis_to_update;
               ordered_amis = sorted_items merged
           in (case (cfn_data, mappings) of
                 (JObj cfn_items, JObj mapping_items) \<Rightarrow>
                   (fs(cfn_template_file \<mapsto>
                         json_dump
                           (JObj (setitem ''Mappings''
                                    (JObj (setitem ''AWSRegionOS2AMI'' (JObj ordered_amis)
                                             mapping_items))
                                    cfn_items))
                         @ nl),
                    Inr ordered_amis)
               | _ \<Rightarrow> (fs, Inl AttributeError)))
      | Inr _ \<Rightarrow> (fs, Inl AttributeError)))))"

section \<open>update_amis_txt and the main program\<close>

definition update_amis_txt :: "files \<Rightarrow> string \<Rightarrow> (string \<times> json) list \<Rightarrow> files \<times> (exn + unit)" where
  "update_amis_txt fs amis_txt_file amis =
     (case convert_json_to_txt amis of
        Inl e \<Rightarrow> (fs, Inl e)
      | Inr amis_txt \<Rightarrow> (fs(amis_txt_file \<mapsto> amis_txt), Inr ()))"

text \<open>
  The result of \<open>get_ami_list\<close> holds strings; in a document they are JSON strings
  inside JSON objects.
\<close>

definition distro_json :: "(string \<times> string) list \<Rightarrow> json" where
  "distro_json amis = JObj (map (\<lambda>(key, ami). (key, JStr ami)) amis)"

definition amis_json_of :: "(string \<times> (string \<times> string) list) list \<Rightarrow> (string \<times> json) list" where
  "amis_json_of amis_dict = map (\<lambda>(region, amis). (region, distro_json amis)) amis_dict"

text \<open>
  The namespace \<open>parse_args\<close> returns: the program is modelled from the point where
  argparse has accepted the command line.
\<close>

record args =
  version :: string
  date :: string
  txt_file :: string
  partition :: string
  cloudformation_template :: string

text \<open>The provider calls and the JSON library the program is run with.\<close>

record env =
  describe_regions :: "string \<Rightarrow> exn + string list"
  describe_images :: ec2_images
  json_load :: "string \<Rightarrow> exn + json"
  json_dump :: "json \<Rightarrow> string"

text \<open>How the process ends: an exit status, or an exception nobody caught.\<close>

datatype ending = Exit nat | Uncaught exn

record outcome =
  files_after :: files
  stdout :: "string list"
  ending :: ending

text \<open>
  The statements after the choice of the partition: each call consumes the value of the
  one before, and the first exception ends the program.
\<close>

definition run ::
  "env \<Rightarrow> args \<Rightarrow> files \<Rightarrow> string \<Rightarrow> string \<Rightarrow> outcome" where
  "run e a fs account_id region =
     (case get_all_aws_regions (describe_regions e) region of
        Inl x \<Rightarrow> \<lparr>files_after = fs, stdout = [], ending = Uncaught x\<rparr>
      | Inr regions \<Rightarrow>
     (case get_ami_list (describe_images e) regions (date a) (version a) account_id of
        (out, Inl x) \<Rightarrow> \<lparr>files_after = fs, stdout = out, ending = Uncaught x\<rparr>
      | (out, Inr amis_dict) \<Rightarrow>
     (case update_cfn_template (json_load e) (json_dump e) fs (cloudformation_template a)
             (amis_json_of amis_dict) of
        (fs', Inl x) \<Rightarrow> \<lparr>files_after = fs', stdout = out, ending = Uncaught x\<rparr>
      | (fs', Inr cfn_amis) \<Rightarrow>
     (case update_amis_txt fs' (txt_file a) cfn_amis of
        (fs'', Inl x) \<Rightarrow> \<lparr>files_after = fs'', stdout = out, ending = Uncaught x\<rparr>
      | (fs'', Inr _) \<Rightarrow> \<lparr>files_after = fs'', stdout = out, ending = Exit 0\<rparr>))))"

definition main :: "env \<Rightarrow> args \<Rightarrow> files \<Rightarrow> outcome" where
  "main e a fs =
     (if partition a = ''commercial'' then run e a fs ''247102896272'' ''us-east-1''
      else if partition a = ''govcloud'' then run e a fs ''124026578433'' ''us-gov-west-1''
      else if partition a = ''china'' then run e a fs ''036028979999'' ''cn-north-1''
      else \<lparr>files_after = fs,
            stdout = [''Unsupported partition '' @ partition a],
            ending = Exit 1\<rparr>)"

section \<open>Notions used in the statements\<close>

text \<open>
  An image matches a distro key when the name fragment configured for the key occurs in
  the name of the image.
\<close>

definition tag_matches :: "string \<Rightarrow> image \<Rightarrow> bool" where
  "tag_matches tag img = list_ex (\<lambda>(key, value). key = tag \<and> str_contains value (Name img)) distros"

text \<open>The images a region returned: none when its query raised.\<close>

definition returned_images :: "ec2_images \<Rightarrow> string \<Rightarrow> string \<Rightarrow> string \<Rightarrow> image list" where
  "returned_images ec2 region_name owner flt =
     (case ec2 region_name owner flt of Inl e \<Rightarrow> [] | Inr images \<Rightarrow> images)"

text \<open>The image id recorded under a region and a distro key, if any.\<close>

definition recorded :: "(string \<times> (string \<times> string) list) list \<Rightarrow> string \<Rightarrow> string \<Rightarrow> string option" where
  "recorded amis_json region_name tag =
     (case map_of amis_json region_name of None \<Rightarrow> None | Some amis \<Rightarrow> map_of amis tag)"


definition fatal :: "exn + 'a \<Rightarrow> bool" where
  "fatal response = (case response of Inl (ClientError code) \<Rightarrow> False | Inl e \<Rightarrow> True | Inr x \<Rightarrow> False)"


text \<open>
  A provider for the examples: one region with three images, one with none, one that
  rejects the account, one that throttles the request, and no endpoint anywhere else.
\<close>

definition example_ec2 :: ec2_images where
  "example_ec2 region_name owner flt =
     (if region_name = ''us-east-1'' then
        Inr [\<lparr>Name = ''aws-parallelcluster-2.0.0-amzn-hvm-201811'', ImageId = ''ami-1''\<rparr>,
             \<lparr>Name = ''aws-parallelcluster-2.0.0-centos7-hvm-201811'', ImageId = ''ami-2''\<rparr>,
             \<lparr>Name = ''aws-parallelcluster-2.0.0-amzn-hvm-b-201811'', ImageId = ''ami-3''\<rparr>]
      else if region_name = ''eu-west-1'' then Inr []
      else if region_name = ''cn-north-1'' then Inl (ClientError ''AuthFailure'')
      else if region_name = ''ap-south-1'' then Inl (ClientError ''RequestLimitExceeded'')
      else Inl (BotoCoreError ''EndpointConnectionError''))"

definition example_regions :: "string list" where
  "example_regions = [''ap-south-1'', ''cn-north-1'', ''eu-west-1'', ''us-east-1'']"



text \<open>
  The mapping field of a document, \<open>cfn_data.get("Mappings").get("AWSRegionOS2AMI")\<close>.
\<close>

definition mapping_field :: "json \<Rightarrow> exn + json" where
  "mapping_field cfn_data =
     (case py_get cfn_data ''Mappings'' of
        Inl e \<Rightarrow> Inl e
      | Inr mappings \<Rightarrow> py_get mappings ''AWSRegionOS2AMI'')"

text \<open>
  The example of the specification: a template with two regions, one of them with a
  distro the new discovery no longer has, and a discovery of two regions.
\<close>

definition example_current :: "(string \<times> json) list" where
  "example_current =
     [(''us-east-1'', JObj [(''alinux'', JStr ''ami-001''), (''centos6'', JStr ''ami-002'')]),
      (''ap-south-1'', JObj [(''alinux'', JStr ''ami-000'')])]"

definition example_discovery :: "(string \<times> json) list" where
  "example_discovery =
     [(''us-east-1'', JObj [(''alinux'', JStr ''ami-111'')]),
      (''eu-west-1'', JObj [(''centos7'', JStr ''ami-222'')])]"

definition example_cfn_data :: json where
  "example_cfn_data =
     JObj [(''AWSTemplateFormatVersion'', JStr ''2010-09-09''),
           (''Mappings'', JObj [(''AWSRegionOS2AMI'', JObj example_current)])]"

definition example_json_load :: "string \<Rightarrow> exn + json" where
  "example_json_load text = (if text = ''template'' then Inr example_cfn_data else Inl ValueError)"

definition example_json_dump :: "json \<Rightarrow> string" where
  "example_json_dump cfn_data = ''dumped''"

definition example_files :: files where
  "example_files = [''cfn.json'' \<mapsto> ''template'']"

text \<open>
  The text report as the specification describes it: the lines of the report, each
  ended by a newline. A section is the header line of a distro key and one line for
  each region that has the key, in the order of the mapping; the sections follow in
  the configured order.
\<close>

definition unlines :: "string list \<Rightarrow> string" where
  "unlines ls = concat (map (\<lambda>l. l @ nl) ls)"

definition entry_lines_spec :: "string \<Rightarrow> (string \<times> (string \<times> string) list) list \<Rightarrow> string list" where
  "entry_lines_spec tag m =
     concat (map (\<lambda>(region, amis).
                    case map_of amis tag of None \<Rightarrow> [] | Some ami \<Rightarrow> [region @ '': '' @ ami]) m)"

definition section_spec :: "string \<Rightarrow> (string \<times> (string \<times> string) list) list \<Rightarrow> string list" where
  "section_spec tag m = (''# '' @ tag) # entry_lines_spec tag m"

definition report_spec :: "(string \<times> (string \<times> string) list) list \<Rightarrow> string" where
  "report_spec m =
     unlines (concat (map (\<lambda>tag. section_spec tag m)
                        [''alinux'', ''centos6'', ''centos7'', ''ubuntu1404'', ''ubuntu1604'']))"

text \<open>An environment and arguments for the examples of the whole program.\<close>

definition example_env :: env where
  "example_env =
     \<lparr>describe_regions = (\<lambda>region. Inr [''us-east-1'', ''eu-west-1'', ''cn-north-1'', ''ap-south-1'']),
      describe_images = example_ec2,
      json_load = example_json_load,
      json_dump = example_json_dump\<rparr>"

definition example_args :: "string \<Rightarrow> args" where
  "example_args p =
     \<lparr>version = ''2.0.0'', date = ''201811'', txt_file = ''amis.txt'', partition = p,
      cloudformation_template = ''cfn.json''\<rparr>"

definition example_merged :: "(string \<times> (string \<times> string) list) list" where
  "example_merged =
     [(''ap-south-1'', [(''alinux'', ''ami-000'')]),
      (''eu-west-1'', [(''centos7'', ''ami-222'')]),
      (''us-east-1'', [(''alinux'', ''ami-111'')])]"

section \<open>Properties of the model\<close>

subsection \<open>Dicts, sorting and substrings\<close>

lemma map_of_setitem: "map_of (setitem k v d) = (map_of d)(k \<mapsto> v)"
  by (induction d) (auto simp: fun_eq_iff)

lemma keys_setitem: "fst ` set (setitem k v d) = insert k (fst ` set d)"
  by (simp add: dom_map_of_conv_image_fst [symmetric] map_of_setitem)

lemma distinct_setitem: "distinct (map fst d) \<Longrightarrow> distinct (map fst (setitem k v d))"
  by (induction d) (auto simp: keys_setitem)

lemma set_setitem: "set (setitem k v d) \<subseteq> insert (k, v) (set d)"
  by (induction d) (auto split: if_splits)

lemma map_of_filter_key: "map_of (filter (\<lambda>p. fst p = k) xs) k = map_of xs k"
  by (induction xs) auto

lemma map_of_sorted_items: "map_of (sorted_items d) = map_of d"
proof
  fix k
  have "map_of (sorted_items d) k = map_of (filter (\<lambda>p. fst p = k) (sort_key fst d)) k"
    by (simp add: sorted_items_def map_of_filter_key)
  also have "\<dots> = map_of (filter (\<lambda>p. fst p = k) d) k"
    by (simp add: sort_key_stable)
  also have "\<dots> = map_of d k"
    by (rule map_of_filter_key)
  finally show "map_of (sorted_items d) k = map_of d k" .
qed

lemma sorted_sorted_items: "sorted (map fst (sorted_items d))"
  by (simp add: sorted_items_def)

lemma str_contains_sublist: "str_contains sub s = sublist sub s"
  by (induction s) (auto simp: sublist_Cons_right)

lemma str_contains_iff: "str_contains sub s \<longleftrightarrow> (\<exists>ps ss. s = ps @ sub @ ss)"
  by (simp add: str_contains_sublist sublist_def)

subsection \<open>The scan of a response\<close>

lemma tag_matches_distros:
  "(tag, fragment) \<in> set distros \<Longrightarrow> tag_matches tag img = str_contains fragment (Name img)"
  by (auto simp: tag_matches_def distros_def)

lemma map_of_scan_distros:
  "map_of (scan_distros img amis) tag =
     (if tag_matches tag img then Some (ImageId img) else map_of amis tag)"
  by (simp add: scan_distros_def tag_matches_def distros_def map_of_setitem)

lemma map_of_fold_scan_distros:
  "map_of (fold scan_distros images amis) tag =
     (case filter (tag_matches tag) images of
        [] \<Rightarrow> map_of amis tag
      | m # ms \<Rightarrow> Some (ImageId (last (m # ms))))"
proof (induction images arbitrary: amis)
  case Nil
  show ?case by simp
next
  case (Cons img images)
  show ?case
    by (simp add: Cons.IH map_of_scan_distros split: list.splits)
qed

lemma map_of_scan_images:
  "map_of (scan_images images) tag =
     (case filter (tag_matches tag) images of
        [] \<Rightarrow> None
      | m # ms \<Rightarrow> Some (ImageId (last (m # ms))))"
  by (simp add: scan_images_def map_of_fold_scan_distros split: list.splits)

lemma distinct_scan_distros:
  "distinct (map fst amis) \<Longrightarrow> distinct (map fst (scan_distros img amis))"
  by (simp add: scan_distros_def distros_def distinct_setitem)

lemma distinct_fold_scan_distros:
  "distinct (map fst amis) \<Longrightarrow> distinct (map fst (fold scan_distros images amis))"
  by (induction images arbitrary: amis) (simp_all add: distinct_scan_distros)

lemma distinct_scan_images: "distinct (map fst (scan_images images))"
  by (simp add: scan_images_def distinct_fold_scan_distros)

lemma scan_images_Nil_iff:
  "scan_images images = [] \<longleftrightarrow> (\<forall>tag. filter (tag_matches tag) images = [])"
proof -
  have "scan_images images = [] \<longleftrightarrow> map_of (scan_images images) = Map.empty"
    by simp
  also have "\<dots> \<longleftrightarrow> (\<forall>tag. map_of (scan_images images) tag = None)"
    by (simp add: fun_eq_iff)
  also have "\<dots> \<longleftrightarrow> (\<forall>tag. filter (tag_matches tag) images = [])"
  proof -
    have "map_of (scan_images images) tag = None \<longleftrightarrow> filter (tag_matches tag) images = []"
      for tag
      by (cases "filter (tag_matches tag) images") (simp_all add: map_of_scan_images)
    then show ?thesis by simp
  qed
  finally show ?thesis .
qed

subsection \<open>The loop over the regions\<close>

lemma loop_lookup:
  "get_ami_list_loop ec2 owner flt regions out amis_json = (out', Inr amis_json') \<Longrightarrow>
   map_of amis_json' r =
     (if r \<in> set regions \<and> scan_images (returned_images ec2 r owner flt) \<noteq> []
      then Some (sorted_items (scan_images (returned_images ec2 r owner flt)))
      else map_of amis_json r)"
proof (induction regions arbitrary: out amis_json)
  case Nil
  then show ?case by simp
next
  case (Cons region_name regions)
  show ?case
  proof (cases "ec2 region_name owner flt")
    case (Inl e)
    with Cons.prems have "scan_images (returned_images ec2 region_name owner flt) = []"
      by (simp add: returned_images_def scan_images_def)
    moreover from Inl Cons.prems
    have "get_ami_list_loop ec2 owner flt regions out amis_json = (out', Inr amis_json')"
      by (cases e) simp_all
    ultimately show ?thesis
      using Cons.IH by auto
  next
    case (Inr images)
    then have ret: "returned_images ec2 region_name owner flt = images"
      by (simp add: returned_images_def)
    show ?thesis
    proof (cases "scan_images images = []")
      case True
      with Inr Cons.prems
      have "get_ami_list_loop ec2 owner flt regions (out @ [warning region_name]) amis_json
              = (out', Inr amis_json')"
        by simp
      from Cons.IH [OF this] True ret show ?thesis by auto
    next
      case False
      with Inr Cons.prems
      have "get_ami_list_loop ec2 owner flt regions out
              (setitem region_name (sorted_items (scan_images images)) amis_json)
              = (out', Inr amis_json')"
        by simp
      from Cons.IH [OF this] False ret show ?thesis
        by (auto simp: map_of_setitem)
    qed
  qed
qed




lemma loop_raises:
  "snd (get_ami_list_loop ec2 owner flt regions out amis_json) = Inl e \<Longrightarrow>
   \<exists>r \<in> set regions. ec2 r owner flt = Inl e \<and> fatal (ec2 r owner flt)"
proof (induction regions arbitrary: out amis_json)
  case Nil
  then show ?case by simp
next
  case (Cons region_name regions)
  show ?case
  proof (cases "ec2 region_name owner flt")
    case (Inl x)
    with Cons.prems Cons.IH show ?thesis
      by (cases x) (auto simp: fatal_def)
  next
    case (Inr images)
    with Cons.prems Cons.IH show ?thesis
      by (auto simp: fatal_def Let_def split: if_splits)
  qed
qed

lemma loop_sorted:
  "get_ami_list_loop ec2 owner flt regions out amis_json = (out', Inr amis_json') \<Longrightarrow>
   \<forall>(r, amis) \<in> set amis_json. sorted (map fst amis) \<and> distinct (map fst amis) \<Longrightarrow>
   \<forall>(r, amis) \<in> set amis_json'. sorted (map fst amis) \<and> distinct (map fst amis)"
proof (induction regions arbitrary: out amis_json)
  case Nil
  then show ?case by simp
next
  case (Cons region_name regions)
  show ?case
  proof (cases "ec2 region_name owner flt")
    case (Inl e)
    with Cons.prems(1)
    have "get_ami_list_loop ec2 owner flt regions out amis_json = (out', Inr amis_json')"
      by (cases e) simp_all
    from Cons.IH [OF this Cons.prems(2)] show ?thesis .
  next
    case (Inr images)
    show ?thesis
    proof (cases "scan_images images = []")
      case True
      with Inr Cons.prems(1)
      have "get_ami_list_loop ec2 owner flt regions (out @ [warning region_name]) amis_json
              = (out', Inr amis_json')"
        by simp
      from Cons.IH [OF this Cons.prems(2)] show ?thesis .
    next
      case False
      let ?amis = "sorted_items (scan_images images)"
      from False Inr Cons.prems(1)
      have run: "get_ami_list_loop ec2 owner flt regions out
              (setitem region_name ?amis amis_json) = (out', Inr amis_json')"
        by simp
      have "sorted (map fst ?amis) \<and> distinct (map fst ?amis)"
        using distinct_scan_images [of images]
        by (simp add: sorted_sorted_items sorted_items_def distinct_map)
      with Cons.prems(2) set_setitem [of region_name ?amis amis_json]
      have "\<forall>(r, amis) \<in> set (setitem region_name ?amis amis_json).
              sorted (map fst amis) \<and> distinct (map fst amis)"
        by blast
      from Cons.IH [OF run this] show ?thesis .
    qed
  qed
qed

subsection \<open>The example run\<close>

lemma example_scan:
  "scan_images
     [\<lparr>Name = ''aws-parallelcluster-2.0.0-amzn-hvm-201811'', ImageId = ''ami-1''\<rparr>,
      \<lparr>Name = ''aws-parallelcluster-2.0.0-centos7-hvm-201811'', ImageId = ''ami-2''\<rparr>,
      \<lparr>Name = ''aws-parallelcluster-2.0.0-amzn-hvm-b-201811'', ImageId = ''ami-3''\<rparr>]
   = [(''alinux'', ''ami-3''), (''centos7'', ''ami-2'')]"
  by (simp add: scan_images_def scan_distros_def distros_def)

lemma example_run:
  "get_ami_list example_ec2 example_regions ''201811'' ''2.0.0'' ''247102896272'' =
     ([warning ''eu-west-1''],
      Inr [(''us-east-1'', [(''alinux'', ''ami-3''), (''centos7'', ''ami-2'')])])"
  by code_simp



section \<open>Claims about get_ami_list\<close>

text \<open>
  C1. When \<open>get_ami_list\<close> returns, then for every queried region and every configured
  distro (key, name fragment): an image id is recorded under (region, key) if and only
  if the fragment is a substring of the name of some image the region returned, and the
  recorded id is the id of the last such image in the order of the response.
\<close>

theorem discovered_iff_last_match:
  assumes "get_ami_list ec2 regions dt ver owner = (out, Inr amis_json)"
    and "region_name \<in> set regions"
    and "(tag, fragment) \<in> set distros"
  shows "(recorded amis_json region_name tag \<noteq> None \<longleftrightarrow>
            (\<exists>img \<in> set (returned_images ec2 region_name owner (name_filter ver dt)).
               str_contains fragment (Name img)))
       \<and> recorded amis_json region_name tag =
            (case filter (\<lambda>img. str_contains fragment (Name img))
                    (returned_images ec2 region_name owner (name_filter ver dt)) of
               [] \<Rightarrow> None
             | m # ms \<Rightarrow> Some (ImageId (last (m # ms))))"
proof -
  let ?images = "returned_images ec2 region_name owner (name_filter ver dt)"
  let ?matching = "filter (\<lambda>img. str_contains fragment (Name img)) ?images"
  have same: "tag_matches tag = (\<lambda>img. str_contains fragment (Name img))"
    using assms(3) by (simp add: fun_eq_iff tag_matches_distros)
  have entry: "map_of amis_json region_name =
      (if scan_images ?images \<noteq> [] then Some (sorted_items (scan_images ?images)) else None)"
    using loop_lookup [OF assms(1) [unfolded get_ami_list_def], of region_name] assms(2)
    by simp
  have eq: "recorded amis_json region_name tag =
      (case ?matching of [] \<Rightarrow> None | m # ms \<Rightarrow> Some (ImageId (last (m # ms))))"
  proof (cases "scan_images ?images = []")
    case True
    then have "filter (tag_matches tag) ?images = []"
      by (simp add: scan_images_Nil_iff)
    then have "?matching = []"
      by (simp only: same)
    with True entry show ?thesis
      by (simp add: recorded_def)
  next
    case False
    with entry have "recorded amis_json region_name tag = map_of (scan_images ?images) tag"
      by (simp add: recorded_def map_of_sorted_items)
    then show ?thesis
      by (simp add: map_of_scan_images same)
  qed
  have "recorded amis_json region_name tag \<noteq> None \<longleftrightarrow> ?matching \<noteq> []"
    by (simp add: eq split: list.splits)
  also have "\<dots> \<longleftrightarrow> (\<exists>img \<in> set ?images. str_contains fragment (Name img))"
    by (simp add: filter_empty_conv)
  finally show ?thesis
    using eq by simp
qed

theorem discovered_iff_last_match_witness:
  "get_ami_list example_ec2 example_regions ''201811'' ''2.0.0'' ''247102896272'' =
     ([warning ''eu-west-1''],
      Inr [(''us-east-1'', [(''alinux'', ''ami-3''), (''centos7'', ''ami-2'')])])
   \<and> ''us-east-1'' \<in> set example_regions
   \<and> (''alinux'', ''amzn'') \<in> set distros
   \<and> recorded [(''us-east-1'', [(''alinux'', ''ami-3''), (''centos7'', ''ami-2'')])]
         ''us-east-1'' ''alinux'' = Some ''ami-3''"
proof -
  have h2: "''us-east-1'' \<in> set example_regions"
    by (simp add: example_regions_def)
  have h3: "(''alinux'', ''amzn'') \<in> set distros"
    by (simp add: distros_def)
  have "returned_images example_ec2 ''us-east-1'' ''247102896272'' (name_filter ''2.0.0'' ''201811'')
      = [\<lparr>Name = ''aws-parallelcluster-2.0.0-amzn-hvm-201811'', ImageId = ''ami-1''\<rparr>,
         \<lparr>Name = ''aws-parallelcluster-2.0.0-centos7-hvm-201811'', ImageId = ''ami-2''\<rparr>,
         \<lparr>Name = ''aws-parallelcluster-2.0.0-amzn-hvm-b-201811'', ImageId = ''ami-3''\<rparr>]"
    by (simp add: returned_images_def example_ec2_def)
  with discovered_iff_last_match [OF example_run h2 h3] example_run h2 h3
  show ?thesis by simp
qed



text \<open>
  C9. Every inner mapping of the result of \<open>get_ami_list\<close> has its distro keys in
  sorted order (and no key twice), whatever the provider answered.
\<close>

theorem inner_mapping_sorted:
  assumes "get_ami_list ec2 regions dt ver owner = (out, Inr amis_json)"
    and "(region_name, amis) \<in> set amis_json"
  shows "sorted (map fst amis) \<and> distinct (map fst amis)"
proof -
  from assms(1)
  have run: "get_ami_list_loop ec2 owner (name_filter ver dt) regions [] [] = (out, Inr amis_json)"
    by (simp add: get_ami_list_def)
  have "\<forall>(r, a) \<in> set amis_json. sorted (map fst a) \<and> distinct (map fst a)"
    by (rule loop_sorted [OF run]) simp
  with assms(2) show ?thesis by blast
qed

theorem inner_mapping_sorted_witness:
  "get_ami_list example_ec2 example_regions ''201811'' ''2.0.0'' ''247102896272'' =
     ([warning ''eu-west-1''],
      Inr [(''us-east-1'', [(''alinux'', ''ami-3''), (''centos7'', ''ami-2'')])])
   \<and> (''us-east-1'', [(''alinux'', ''ami-3''), (''centos7'', ''ami-2'')])
        \<in> set [(''us-east-1'', [(''alinux'', ''ami-3''), (''centos7'', ''ami-2'')])]
   \<and> sorted (map fst [(''alinux'', ''ami-3''), (''centos7'', ''ami-2'')])
   \<and> distinct (map fst [(''alinux'', ''ami-3''), (''centos7'', ''ami-2'')])"
proof -
  have h2: "(''us-east-1'', [(''alinux'', ''ami-3''), (''centos7'', ''ami-2'')])
        \<in> set [(''us-east-1'', [(''alinux'', ''ami-3''), (''centos7'', ''ami-2'')])]"
    by simp
  from inner_mapping_sorted [OF example_run h2] example_run h2
  show ?thesis by simp
qed




section \<open>Claims about update_cfn_template\<close>

lemma dict_update_other_key:
  "k \<notin> fst ` set other \<Longrightarrow> map_of (dict_update d other) k = map_of d k"
  unfolding dict_update_def
  by (induction other arbitrary: d) (auto simp: map_of_setitem)

lemma dict_update_new_key:
  "distinct (map fst other) \<Longrightarrow> (k, v) \<in> set other \<Longrightarrow> map_of (dict_update d other) k = Some v"
proof (induction other arbitrary: d)
  case Nil
  then show ?case by simp
next
  case (Cons p other)
  obtain k' v' where p: "p = (k', v')" by (cases p)
  show ?case
  proof (cases "(k, v) = (k', v')")
    case True
    with Cons.prems p have "k \<notin> fst ` set other" by auto
    then have "map_of (dict_update (setitem k v d) other) k = map_of (setitem k v d) k"
      by (rule dict_update_other_key)
    with True p show ?thesis
      by (simp add: dict_update_def map_of_setitem)
  next
    case False
    with Cons.prems p have "distinct (map fst other)" and "(k, v) \<in> set other" by auto
    then have "map_of (dict_update (setitem k' v' d) other) k = Some v"
      by (rule Cons.IH)
    with p show ?thesis
      by (simp add: dict_update_def)
  qed
qed

lemma mapping_field_JObj:
  assumes "mapping_field cfn_data = Inr (JObj current_amis)"
  obtains cfn_items mapping_items where
    "cfn_data = JObj cfn_items"
    "map_of cfn_items ''Mappings'' = Some (JObj mapping_items)"
    "map_of mapping_items ''AWSRegionOS2AMI'' = Some (JObj current_amis)"
proof -
  from assms obtain cfn_items where c: "cfn_data = JObj cfn_items"
    by (cases cfn_data) (simp_all add: mapping_field_def)
  with assms obtain mappings where m: "map_of cfn_items ''Mappings'' = Some mappings"
    by (cases "map_of cfn_items ''Mappings''") (simp_all add: mapping_field_def)
  with assms c obtain mapping_items where mi: "mappings = JObj mapping_items"
    by (cases mappings) (simp_all add: mapping_field_def)
  with assms c m have "map_of mapping_items ''AWSRegionOS2AMI'' = Some (JObj current_amis)"
    by (cases "map_of mapping_items ''AWSRegionOS2AMI''") (simp_all add: mapping_field_def)
  with c m mi that show thesis by simp
qed

lemma mapping_field_written:
  "mapping_field
     (JObj (setitem ''Mappings'' (JObj (setitem ''AWSRegionOS2AMI'' v mapping_items)) cfn_items))
   = Inr v"
  by (simp add: mapping_field_def map_of_setitem)

lemma update_cfn_template_merges:
  assumes "fs cfn_template_file = Some content"
    and "load content = Inr cfn_data"
    and "mapping_field cfn_data = Inr (JObj current_amis)"
  shows "\<exists>fs'. update_cfn_template load dump fs cfn_template_file amis_to_update
           = (fs', Inr (sorted_items (dict_update current_amis amis_to_update)))"
proof -
  from assms(3) obtain cfn_items mapping_items where
    "cfn_data = JObj cfn_items"
    "map_of cfn_items ''Mappings'' = Some (JObj mapping_items)"
    "map_of mapping_items ''AWSRegionOS2AMI'' = Some (JObj current_amis)"
    by (rule mapping_field_JObj)
  with assms(1,2) show ?thesis
    by (simp add: update_cfn_template_def Let_def)
qed

text \<open>
  C3. Merging into a readable template leaves the entry of every region that is not a
  key of the new discovery set as it was.
\<close>

theorem merge_keeps_other_regions:
  assumes "fs cfn_template_file = Some content"
    and "load content = Inr cfn_data"
    and "mapping_field cfn_data = Inr (JObj current_amis)"
    and "region \<notin> fst ` set amis_to_update"
  shows "\<exists>fs' ordered_amis.
           update_cfn_template load dump fs cfn_template_file amis_to_update
             = (fs', Inr ordered_amis)
           \<and> map_of ordered_amis region = map_of current_amis region"
proof -
  from assms(1-3)
    update_cfn_template_merges
      [where fs = fs and cfn_template_file = cfn_template_file and content = content and load = load
         and cfn_data = cfn_data and current_amis = current_amis]
  obtain fs' where
    "update_cfn_template load dump fs cfn_template_file amis_to_update
       = (fs', Inr (sorted_items (dict_update current_amis amis_to_update)))"
    by blast
  moreover have "map_of (sorted_items (dict_update current_amis amis_to_update)) region
      = map_of current_amis region"
    using assms(4) by (simp add: map_of_sorted_items dict_update_other_key)
  ultimately show ?thesis by blast
qed

lemma example_template:
  "example_files ''cfn.json'' = Some ''template''
   \<and> example_json_load ''template'' = Inr example_cfn_data
   \<and> mapping_field example_cfn_data = Inr (JObj example_current)"
  by (simp add: example_files_def example_json_load_def example_cfn_data_def mapping_field_def)

theorem merge_keeps_other_regions_witness:
  "example_files ''cfn.json'' = Some ''template''
   \<and> example_json_load ''template'' = Inr example_cfn_data
   \<and> mapping_field example_cfn_data = Inr (JObj example_current)
   \<and> ''ap-south-1'' \<notin> fst ` set example_discovery
   \<and> (\<exists>fs' ordered_amis.
        update_cfn_template example_json_load example_json_dump example_files ''cfn.json''
          example_discovery = (fs', Inr ordered_amis)
        \<and> map_of ordered_amis ''ap-south-1'' = Some (JObj [(''alinux'', JStr ''ami-000'')]))"
proof -
  note t = example_template
  have h4: "''ap-south-1'' \<notin> fst ` set example_discovery"
    by (simp add: example_discovery_def)
  have "map_of example_current ''ap-south-1'' = Some (JObj [(''alinux'', JStr ''ami-000'')])"
    by (simp add: example_current_def)
  with merge_keeps_other_regions
         [where fs = example_files and cfn_template_file = "''cfn.json''" and content = "''template''"
            and load = example_json_load and cfn_data = example_cfn_data
            and current_amis = example_current and region = "''ap-south-1''"
            and amis_to_update = example_discovery and dump = example_json_dump] t h4
  show ?thesis by simp
qed

text \<open>
  C4. The merged entry of a region of the new discovery set is the new inner mapping as
  it is: nothing of the old entry of the region is left.
\<close>

theorem merge_replaces_region:
  assumes "fs cfn_template_file = Some content"
    and "load content = Inr cfn_data"
    and "mapping_field cfn_data = Inr (JObj current_amis)"
    and "distinct (map fst amis_to_update)"
    and "(region, amis) \<in> set amis_to_update"
  shows "\<exists>fs' ordered_amis.
           update_cfn_template load dump fs cfn_template_file amis_to_update
             = (fs', Inr ordered_amis)
           \<and> map_of ordered_amis region = Some amis"
proof -
  from assms(1-3)
    update_cfn_template_merges
      [where fs = fs and cfn_template_file = cfn_template_file and content = content and load = load
         and cfn_data = cfn_data and current_amis = current_amis]
  obtain fs' where
    "update_cfn_template load dump fs cfn_template_file amis_to_update
       = (fs', Inr (sorted_items (dict_update current_amis amis_to_update)))"
    by blast
  moreover have "map_of (sorted_items (dict_update current_amis amis_to_update)) region = Some amis"
    using assms(4,5) by (simp add: map_of_sorted_items dict_update_new_key)
  ultimately show ?thesis by blast
qed

theorem merge_replaces_region_witness:
  "example_files ''cfn.json'' = Some ''template''
   \<and> example_json_load ''template'' = Inr example_cfn_data
   \<and> mapping_field example_cfn_data = Inr (JObj example_current)
   \<and> distinct (map fst example_discovery)
   \<and> (''us-east-1'', JObj [(''alinux'', JStr ''ami-111'')]) \<in> set example_discovery
   \<and> map_of example_current ''us-east-1''
        = Some (JObj [(''alinux'', JStr ''ami-001''), (''centos6'', JStr ''ami-002'')])
   \<and> (\<exists>fs' ordered_amis.
        update_cfn_template example_json_load example_json_dump example_files ''cfn.json''
          example_discovery = (fs', Inr ordered_amis)
        \<and> map_of ordered_amis ''us-east-1'' = Some (JObj [(''alinux'', JStr ''ami-111'')]))"
proof -
  note t = example_template
  have h4: "distinct (map fst example_discovery)"
    by (simp add: example_discovery_def)
  have h5: "(''us-east-1'', JObj [(''alinux'', JStr ''ami-111'')]) \<in> set example_discovery"
    by (simp add: example_discovery_def)
  have old: "map_of example_current ''us-east-1''
        = Some (JObj [(''alinux'', JStr ''ami-001''), (''centos6'', JStr ''ami-002'')])"
    by (simp add: example_current_def)
  from merge_replaces_region
         [where fs = example_files and cfn_template_file = "''cfn.json''" and content = "''template''"
            and load = example_json_load and cfn_data = example_cfn_data
            and current_amis = example_current and region = "''us-east-1''"
            and amis = "JObj [(''alinux'', JStr ''ami-111'')]"
            and amis_to_update = example_discovery and dump = example_json_dump] t h4 h5 old
  show ?thesis by simp
qed

text \<open>
  C5. Whenever \<open>update_cfn_template\<close> returns, the mapping it returns has its region keys
  in sorted order, and the file now holds the dump of a document whose mapping field is
  that mapping, followed by a newline.
\<close>

theorem merged_mapping_sorted:
  assumes "update_cfn_template load dump fs cfn_template_file amis_to_update
             = (fs', Inr ordered_amis)"
  shows "sorted (map fst ordered_amis)
       \<and> (\<exists>cfn_data'. fs' = fs(cfn_template_file \<mapsto> dump cfn_data' @ nl)
             \<and> mapping_field cfn_data' = Inr (JObj ordered_amis))"
  using assms
  by (auto simp: update_cfn_template_def Let_def sorted_sorted_items mapping_field_written
           split: option.splits sum.splits json.splits)

theorem merged_mapping_sorted_witness:
  "update_cfn_template example_json_load example_json_dump example_files ''cfn.json''
     example_discovery
   = (example_files(''cfn.json'' \<mapsto> ''dumped'' @ nl),
      Inr [(''ap-south-1'', JObj [(''alinux'', JStr ''ami-000'')]),
           (''eu-west-1'', JObj [(''centos7'', JStr ''ami-222'')]),
           (''us-east-1'', JObj [(''alinux'', JStr ''ami-111'')])])
   \<and> sorted [''ap-south-1'', ''eu-west-1'', ''us-east-1'']"
proof -
  have run: "update_cfn_template example_json_load example_json_dump example_files ''cfn.json''
     example_discovery
   = (example_files(''cfn.json'' \<mapsto> ''dumped'' @ nl),
      Inr [(''ap-south-1'', JObj [(''alinux'', JStr ''ami-000'')]),
           (''eu-west-1'', JObj [(''centos7'', JStr ''ami-222'')]),
           (''us-east-1'', JObj [(''alinux'', JStr ''ami-111'')])])"
    by (simp add: update_cfn_template_def example_files_def example_json_load_def
          example_cfn_data_def example_current_def example_discovery_def example_json_dump_def
          dict_update_def sorted_items_def Let_def)
  from merged_mapping_sorted [OF run] run show ?thesis by simp
qed

section \<open>Claims about convert_json_to_txt\<close>

lemma unlines_append: "unlines (xs @ ys) = unlines xs @ unlines ys"
  by (simp add: unlines_def)

lemma unlines_Cons: "unlines (l # ls) = l @ nl @ unlines ls"
  by (simp add: unlines_def)

lemma unlines_Nil: "unlines [] = []"
  by (simp add: unlines_def)

lemma unlines_ends: "unlines ls = [] \<or> last (unlines ls) = CHR 0x0A"
  by (cases ls rule: rev_cases) (simp_all add: unlines_def nl_def)

lemma py_in_distro_json: "py_in tag (distro_json amis) = Inr (tag \<in> fst ` set amis)"
proof -
  have "map fst (map (\<lambda>(key, ami). (key, JStr ami)) amis) = map fst amis"
    by (induction amis) auto
  then show ?thesis
    by (simp add: distro_json_def del: set_map) (simp add: image_iff)
qed

lemma map_of_distro_items:
  "map_of (map (\<lambda>(key, ami). (key, JStr ami)) amis) tag = map_option JStr (map_of amis tag)"
  by (induction amis) auto

lemma py_getitem_distro_json:
  "py_getitem (distro_json amis) tag =
     (case map_of amis tag of None \<Rightarrow> Inl KeyError | Some ami \<Rightarrow> Inr (JStr ami))"
  by (simp add: distro_json_def map_of_distro_items split: option.splits)

lemma region_lines_typed:
  "region_lines tag (amis_json_of m) amis_txt = Inr (amis_txt @ unlines (entry_lines_spec tag m))"
proof (induction m arbitrary: amis_txt)
  case Nil
  show ?case
    by (simp add: amis_json_of_def entry_lines_spec_def unlines_def)
next
  case (Cons p m)
  obtain region amis where p: "p = (region, amis)" by (cases p)
  have rest: "entry_lines_spec tag (p # m)
      = (case map_of amis tag of None \<Rightarrow> [] | Some ami \<Rightarrow> [region @ '': '' @ ami])
        @ entry_lines_spec tag m"
    by (simp add: entry_lines_spec_def p)
  have step: "region_lines tag (amis_json_of (p # m)) amis_txt =
      (case map_of amis tag of
         None \<Rightarrow> region_lines tag (amis_json_of m) amis_txt
       | Some ami \<Rightarrow> region_lines tag (amis_json_of m) (amis_txt @ region @ '': '' @ ami @ nl))"
  proof (cases "map_of amis tag")
    case None
    then have "tag \<notin> fst ` set amis"
      by (simp add: map_of_eq_None_iff)
    with None show ?thesis
      by (simp add: amis_json_of_def p py_in_distro_json)
  next
    case (Some ami)
    then have "tag \<in> fst ` set amis"
      by (metis map_of_eq_None_iff option.distinct(1))
    with Some show ?thesis
      by (simp add: amis_json_of_def p py_in_distro_json py_getitem_distro_json)
  qed
  show ?case
    by (cases "map_of amis tag")
       (simp_all add: step rest Cons.IH unlines_Cons [of _ "entry_lines_spec tag m"])
qed

lemma distro_sections_typed:
  "distro_sections ds (amis_json_of m) amis_txt =
     Inr (amis_txt @ unlines (concat (map (\<lambda>tag. section_spec tag m) (map fst ds))))"
proof (induction ds arbitrary: amis_txt)
  case Nil
  show ?case by (simp add: unlines_Nil)
next
  case (Cons d ds)
  obtain key val where d: "d = (key, val)" by (cases d)
  show ?case
    by (simp add: d region_lines_typed Cons.IH section_spec_def unlines_append unlines_Cons)
qed

lemma convert_json_to_txt_typed:
  "convert_json_to_txt (amis_json_of m) =
     Inr (unlines (concat (map (\<lambda>tag. section_spec tag m) (map fst distros))))"
  by (simp add: convert_json_to_txt_def distro_sections_typed)

lemma distro_keys:
  "map fst distros = [''alinux'', ''centos6'', ''centos7'', ''ubuntu1404'', ''ubuntu1604'']"
  by (simp add: distros_def)

text \<open>
  C6. For every Region\<rightarrow>DistroMap the text report is the report of the specification:
  the sections of alinux, centos6, centos7, ubuntu1404 and ubuntu1604 in this order, each
  a header line followed by one line for each region that has the key, in the order of
  the keys of the mapping, and nothing for a region without the key.
\<close>

theorem report_follows_spec:
  "convert_json_to_txt (amis_json_of m) = Inr (report_spec m)"
  by (simp only: convert_json_to_txt_typed distro_keys report_spec_def)

theorem report_follows_spec_witness:
  "convert_json_to_txt (amis_json_of example_merged) =
     Inr (''# alinux'' @ nl @ ''ap-south-1: ami-000'' @ nl @ ''us-east-1: ami-111'' @ nl @
          ''# centos6'' @ nl @
          ''# centos7'' @ nl @ ''eu-west-1: ami-222'' @ nl @
          ''# ubuntu1404'' @ nl @
          ''# ubuntu1604'' @ nl)"
proof -
  have "report_spec example_merged =
          ''# alinux'' @ nl @ ''ap-south-1: ami-000'' @ nl @ ''us-east-1: ami-111'' @ nl @
          ''# centos6'' @ nl @
          ''# centos7'' @ nl @ ''eu-west-1: ami-222'' @ nl @
          ''# ubuntu1404'' @ nl @
          ''# ubuntu1604'' @ nl"
    by (simp add: report_spec_def section_spec_def entry_lines_spec_def unlines_def
          example_merged_def)
  with report_follows_spec [of example_merged] show ?thesis by simp
qed

text \<open>
  C10. For every Region\<rightarrow>DistroMap and every configured distro key, the text report has
  the header line of the key: the header, ended by a newline, stands at the start of the
  text or after a newline. When no region has the key, the header line is the whole
  section: the text ends after it, or the header line of another configured key follows.
\<close>

theorem header_of_every_distro:
  assumes "tag \<in> fst ` set distros"
  shows "\<exists>amis_txt before after.
           convert_json_to_txt (amis_json_of m) = Inr amis_txt
         \<and> amis_txt = before @ ''# '' @ tag @ nl @ after
         \<and> (before = [] \<or> last before = CHR 0x0A)
         \<and> ((\<forall>(region, amis) \<in> set m. tag \<notin> fst ` set amis) \<longrightarrow>
              after = [] \<or> (\<exists>following \<in> fst ` set distros. prefix (''# '' @ following @ nl) after))"
proof -
  let ?sections = "\<lambda>tags. unlines (concat (map (\<lambda>tag. section_spec tag m) tags))"
  from assms have "tag \<in> set (map fst distros)" by simp
  from split_list [OF this]
  obtain earlier later where tags: "map fst distros = earlier @ tag # later"
    by blast
  let ?before = "?sections earlier"
  let ?after = "unlines (entry_lines_spec tag m) @ ?sections later"
  have report: "convert_json_to_txt (amis_json_of m) = Inr (?before @ ''# '' @ tag @ nl @ ?after)"
    by (simp add: convert_json_to_txt_typed tags section_spec_def unlines_append unlines_Cons)
  have before: "?before = [] \<or> last ?before = CHR 0x0A"
    by (rule unlines_ends)
  have empty: "?after = [] \<or> (\<exists>following \<in> fst ` set distros. prefix (''# '' @ following @ nl) ?after)"
    if none: "\<forall>(region, amis) \<in> set m. tag \<notin> fst ` set amis"
  proof -
    have "(case map_of amis tag of None \<Rightarrow> [] | Some ami \<Rightarrow> [region @ '': '' @ ami]) = []"
      if "(region, amis) \<in> set m" for region amis
    proof -
      from that none have "tag \<notin> fst ` set amis" by blast
      then have "map_of amis tag = None" by (simp add: map_of_eq_None_iff)
      then show ?thesis by simp
    qed
    then have "entry_lines_spec tag m = []"
      by (auto simp: entry_lines_spec_def)
    then have after: "?after = ?sections later"
      by (simp add: unlines_Nil)
    show ?thesis
    proof (cases later)
      case Nil
      with after show ?thesis by (simp add: unlines_Nil)
    next
      case (Cons following rest)
      with tags have "following \<in> set (map fst distros)" by simp
      then have "following \<in> fst ` set distros" by simp
      moreover from Cons after have "prefix (''# '' @ following @ nl) ?after"
        by (simp add: section_spec_def unlines_Cons)
      ultimately show ?thesis by blast
    qed
  qed
  from report before empty show ?thesis by blast
qed

theorem header_of_every_distro_witness:
  "''centos6'' \<in> fst ` set distros
   \<and> list_all (\<lambda>(region, amis). ''centos6'' \<notin> fst ` set amis) example_merged
   \<and> (\<exists>amis_txt before after.
         convert_json_to_txt (amis_json_of example_merged) = Inr amis_txt
       \<and> amis_txt = before @ ''# '' @ ''centos6'' @ nl @ after
       \<and> (before = [] \<or> last before = CHR 0x0A)
       \<and> (after = [] \<or> (\<exists>following \<in> fst ` set distros. prefix (''# '' @ following @ nl) after)))"
proof -
  have h1: "''centos6'' \<in> fst ` set distros"
    by (simp add: distros_def)
  have h2: "\<forall>(region, amis) \<in> set example_merged. ''centos6'' \<notin> fst ` set amis"
    by (simp add: example_merged_def)
  from header_of_every_distro [OF h1, of example_merged] h1 h2
  show ?thesis by (simp add: list_all_iff)
qed

section \<open>Claims about the main program\<close>

text \<open>
  C8. With a partition other than commercial, china and govcloud the program prints the
  error message, exits with status 1 and leaves every file as it was.
\<close>

theorem unsupported_partition_exits:
  assumes "partition a \<notin> {''commercial'', ''china'', ''govcloud''}"
  shows "main e a fs =
           \<lparr>files_after = fs, stdout = [''Unsupported partition '' @ partition a], ending = Exit 1\<rparr>"
  using assms by (simp add: main_def)

theorem unsupported_partition_exits_witness:
  "partition (example_args ''unsupported'') \<notin> {''commercial'', ''china'', ''govcloud''}
   \<and> main example_env (example_args ''unsupported'') example_files =
        \<lparr>files_after = example_files, stdout = [''Unsupported partition unsupported''],
         ending = Exit 1\<rparr>"
proof -
  have h: "partition (example_args ''unsupported'') \<notin> {''commercial'', ''china'', ''govcloud''}"
    by (simp add: example_args_def)
  from unsupported_partition_exits [OF h, of example_env example_files] h
  show ?thesis by (simp add: example_args_def)
qed

text \<open>
  An exception that leaves \<open>get_ami_list\<close> is caught nowhere: the program ends with
  it, and no file has been written.
\<close>

lemma discovery_error_aborts_run:
  assumes "get_all_aws_regions (describe_regions e) region = Inr regions"
    and "get_ami_list (describe_images e) regions (date a) (version a) account_id = (out, Inl x)"
  shows "run e a fs account_id region = \<lparr>files_after = fs, stdout = out, ending = Uncaught x\<rparr>"
  using assms by (simp add: run_def)

text \<open>A whole run of the program on the example, for the commercial partition.\<close>

lemma example_main_run:
  "ending (main example_env (example_args ''commercial'') example_files) = Exit 0
   \<and> stdout (main example_env (example_args ''commercial'') example_files)
        = [warning ''eu-west-1'']
   \<and> files_after (main example_env (example_args ''commercial'') example_files) ''cfn.json''
        = Some (''dumped'' @ nl)
   \<and> files_after (main example_env (example_args ''commercial'') example_files) ''amis.txt''
        = Some (''# alinux'' @ nl @ ''ap-south-1: ami-000'' @ nl @ ''us-east-1: ami-3'' @ nl @
                ''# centos6'' @ nl @
                ''# centos7'' @ nl @ ''us-east-1: ami-2'' @ nl @
                ''# ubuntu1404'' @ nl @
                ''# ubuntu1604'' @ nl)"
  by code_simp

end
